theory Spec2Isabelle
  imports Complex_Main
begin

section \<open>Data model\<close>

text \<open>
  The dashboard (\<^verbatim>\<open>network_dashboard.py\<close>) and the charts (\<^verbatim>\<open>visualizations.py\<close>)
  work on a table of packet records with the columns \<^verbatim>\<open>timestamp\<close>, \<^verbatim>\<open>source\<close>,
  \<^verbatim>\<open>destination\<close>, \<^verbatim>\<open>protocol\<close> and \<^verbatim>\<open>size\<close>. A row is a record with these
  fields; further columns a table may carry live in the extension part of the record
  scheme. The column \<^verbatim>\<open>size\<close> is the field \<open>size_col\<close>.
\<close>

datatype protocol = TCP | UDP | ICMP | OTHER

text \<open>
  A cell of the \<^verbatim>\<open>timestamp\<close> column is a capture-time instant, held either as a
  number (\<open>Epoch n\<close>, nanoseconds since the epoch, the unit \<^verbatim>\<open>pd.to_datetime\<close> reads a
  number in) or as a datetime value (\<open>Datetime n\<close>, the instant \<open>n\<close> nanoseconds after
  the epoch).
\<close>

datatype timestamp = Epoch int | Datetime int

record packet_row =
  timestamp :: timestamp
  source :: string
  destination :: string
  protocol :: protocol
  size_col :: nat

type_synonym 'x dataframe = "'x packet_row_scheme list"

section \<open>The record store\<close>

text \<open>
  Modelled from the spec: the module \<^verbatim>\<open>packet_processor\<close> (class
  \<^verbatim>\<open>PacketProcessor\<close>, which holds the records) is imported by
  \<^verbatim>\<open>network_dashboard.py\<close> but its file is not among the sources. The store follows
  the specification of the Record Store: a bounded ordered sequence, oldest to newest by
  arrival, with a capacity fixed at construction.
\<close>

record 'r record_store =
  capacity :: nat
  records :: "'r list"

definition new_store :: "nat \<Rightarrow> 'r record_store" where
  "new_store cap = \<lparr>capacity = cap, records = []\<rparr>"

text \<open>
  Modelled from the spec: \<^verbatim>\<open>append\<close> of the missing store. The record is added to the
  tail and, when the capacity is exceeded, the oldest record (the head) is evicted.
\<close>

definition append_store :: "'r \<Rightarrow> 'r record_store \<Rightarrow> 'r record_store" where
  "append_store r s =
     (let rs = records s @ [r]
      in s\<lparr>records := (if capacity s < length rs then tl rs else rs)\<rparr>)"

text \<open>
  Modelled from the spec: the other wording of the same contract, "if length would exceed
  capacity, evicts the head first", then adds to the tail. On an empty store there is no
  head to evict.
\<close>

definition append_evict_first :: "'r \<Rightarrow> 'r record_store \<Rightarrow> 'r record_store" where
  "append_evict_first r s =
     (let rs = (if capacity s < length (records s) + 1 then tl (records s) else records s)
      in s\<lparr>records := rs @ [r]\<rparr>)"

text \<open>Modelled from the spec: \<^verbatim>\<open>snapshot\<close> returns a copy of the current records.\<close>

definition snapshot :: "'r record_store \<Rightarrow> 'r list" where
  "snapshot s = records s"

definition count :: "'r record_store \<Rightarrow> nat" where
  "count s = length (records s)"

text \<open>A sequence of appends, in arrival order.\<close>

fun append_all :: "'r list \<Rightarrow> 'r record_store \<Rightarrow> 'r record_store" where
  "append_all [] s = s"
| "append_all (r # rs) s = append_all rs (append_store r s)"

section \<open>Streamlit output and exceptions\<close>

text \<open>
  A figure built by \<^verbatim>\<open>plotly.express\<close>: \<^verbatim>\<open>px.pie(values, names, title)\<close>,
  \<^verbatim>\<open>px.line(x, y, title)\<close> and \<^verbatim>\<open>px.bar(x, y, title)\<close>. The x axis of the line chart
  holds datetimes, as nanoseconds since the epoch.
\<close>

datatype figure =
  Pie "nat list" "protocol list" string
| Line "int list" "nat list" string
| Bar "string list" "nat list" string

text \<open>
  The value of a metric: the row count \<^verbatim>\<open>len(df)\<close>, or a duration \<open>d\<close> shown as
  \<^verbatim>\<open>f"{duration:.2f}s"\<close>.
\<close>

datatype metric_value = Count nat | Seconds real

text \<open>
  The elements a script run puts on the page, one constructor for each Streamlit call of
  the sources. \<open>Metric c\<close> is a metric placed in column \<open>c\<close> of \<^verbatim>\<open>st.columns(2)\<close>;
  \<open>Dataframe\<close> is the table of the five selected columns.
\<close>

datatype 'x ui =
  Page_config string string
| Title string
| Columns nat
| Warning string
| Info string
| Metric nat string metric_value
| Write string "'x dataframe"
| Plotly_chart figure
| Subheader string
| Dataframe "packet_row list"
| Button string

datatype error =
  NotImplementedError
| AttributeError
| TypeError
| Exception string

section \<open>visualizations.py\<close>

text \<open>
  \<^verbatim>\<open>Series.value_counts()\<close>: the distinct values with their number of occurrences,
  largest count first. pandas does not fix the order among equal counts; here they stay
  in order of first appearance.
\<close>

definition value_counts :: "'a list \<Rightarrow> ('a \<times> nat) list" where
  "value_counts xs =
     sort_key (\<lambda>p. - int (snd p)) (map (\<lambda>v. (v, count_list xs v)) (rev (remdups (rev xs))))"

text \<open>\<^verbatim>\<open>pd.to_datetime\<close> on a cell: a number becomes the datetime, a datetime stays.\<close>

fun to_datetime :: "timestamp \<Rightarrow> timestamp" where
  "to_datetime (Epoch n) = Datetime n"
| "to_datetime (Datetime n) = Datetime n"

text \<open>
  \<^verbatim>\<open>.dt.floor('S')\<close> on a column: every datetime is rounded down to the second; the
  \<^verbatim>\<open>.dt\<close> accessor raises AttributeError on a column that holds anything else.
\<close>

fun dt_floor_S :: "timestamp list \<Rightarrow> error + int list" where
  "dt_floor_S [] = Inr []"
| "dt_floor_S (Datetime n # ts) =
     (case dt_floor_S ts of
        Inl e \<Rightarrow> Inl e
      | Inr ks \<Rightarrow> Inr (n div 1000000000 * 1000000000 # ks))"
| "dt_floor_S (Epoch n # ts) = Inl AttributeError"

text \<open>\<^verbatim>\<open>df.groupby(keys).size()\<close>: the distinct keys in ascending order, with group sizes.\<close>

definition groupby_size :: "int list \<Rightarrow> (int \<times> nat) list" where
  "groupby_size ks = map (\<lambda>k. (k, count_list ks k)) (sort (remdups ks))"

text \<open>
  The strategy classes. \<^verbatim>\<open>render\<close> takes the dataframe and the page so far, and
  returns the dataframe as the call leaves it (or the exception raised) and the page.
\<close>

datatype strategy =
  VisualizationStrategy
| ProtocolPieChart
| PacketsTimelineChart
| TopSourceIPsBarChart

fun render :: "strategy \<Rightarrow> 'x dataframe \<Rightarrow> 'x ui list \<Rightarrow> (error + 'x dataframe) \<times> 'x ui list" where
  "render VisualizationStrategy df pg = (Inl NotImplementedError, pg)"
| "render ProtocolPieChart df pg =
     (let protocol_counts = value_counts (map protocol df);
          fig = Pie (map snd protocol_counts) (map fst protocol_counts) ''Protocol Distribution''
      in (Inr df, pg @ [Plotly_chart fig]))"
| "render PacketsTimelineChart df pg =
     (let df = map (\<lambda>r. r\<lparr>timestamp := to_datetime (timestamp r)\<rparr>) df
      in case dt_floor_S (map timestamp df) of
           Inl e \<Rightarrow> (Inl e, pg)
         | Inr keys \<Rightarrow>
             (let df_grouped = groupby_size keys;
                  fig = Line (map fst df_grouped) (map snd df_grouped) ''Packets per Second''
              in (Inr df, pg @ [Plotly_chart fig])))"
| "render TopSourceIPsBarChart df pg =
     (let top_sources = take 10 (value_counts (map source df));
          fig = Bar (map fst top_sources) (map snd top_sources) ''Top Source IP Addresses''
      in (Inr df, pg @ [Plotly_chart fig]))"

text \<open>The loop \<^verbatim>\<open>for strategy in strategies: strategy.render(df)\<close>.\<close>

fun render_each :: "strategy list \<Rightarrow> 'x dataframe \<Rightarrow> 'x ui list \<Rightarrow> (error + 'x dataframe) \<times> 'x ui list" where
  "render_each [] df pg = (Inr df, pg)"
| "render_each (strategy # strategies) df pg =
     (case render strategy df pg of
        (Inl e, pg') \<Rightarrow> (Inl e, pg')
      | (Inr df', pg') \<Rightarrow> render_each strategies df' pg')"

definition create_visualizations :: "'x dataframe \<Rightarrow> 'x ui list \<Rightarrow> (error + 'x dataframe) \<times> 'x ui list" where
  "create_visualizations df pg =
     (if length df = 0 then (Inr df, pg @ [Info ''No data to visualize.''])
      else render_each [ProtocolPieChart, PacketsTimelineChart, TopSourceIPsBarChart] df pg)"

section \<open>network_dashboard.py\<close>

text \<open>
  The class \<^verbatim>\<open>PacketProcessor\<close> comes from the module that is not among the sources,
  so the dashboard is modelled for any such class, given by what the dashboard uses of
  it: the constructor (a call with its list of positional arguments yields an object or
  raises), the callback \<^verbatim>\<open>process_packet\<close> and the query \<^verbatim>\<open>get_dataframe\<close>. \<open>'p\<close> is
  the state of a processor object, \<open>'f\<close> a captured frame.
\<close>

record ('p, 'f, 'x) packet_processor_class =
  init :: "nat list \<Rightarrow> error + 'p"
  process_packet :: "'f \<Rightarrow> 'p \<Rightarrow> 'p"
  get_dataframe :: "'p \<Rightarrow> 'x dataframe"

text \<open>
  \<^verbatim>\<open>st.session_state\<close> with the two keys the dashboard uses. For \<open>processor\<close>,
  \<open>None\<close> is an absent key, \<open>Some None\<close> the Python value \<^verbatim>\<open>None\<close> and
  \<open>Some (Some r)\<close> the processor object at reference \<open>r\<close>.
\<close>

record session_state =
  processor :: "nat option option"
  start_time :: "real option"

text \<open>
  The state of a session: the session state, the page of the current script run, the
  processor objects by reference, the capture threads started (each with the reference
  of the processor its callback is bound to), and the wall clock as the sequence of
  values that successive calls of \<^verbatim>\<open>time.time()\<close> return.
\<close>

record ('p, 'x) world =
  session_state :: session_state
  page :: "'x ui list"
  heap :: "nat \<Rightarrow> 'p option"
  next_ref :: nat
  threads :: "nat list"
  clock :: "nat \<Rightarrow> real"
  ticks :: nat

definition time_time :: "('p, 'x) world \<Rightarrow> real \<times> ('p, 'x) world" where
  "time_time w = (clock w (ticks w), w\<lparr>ticks := Suc (ticks w)\<rparr>)"

definition emit :: "'x ui \<Rightarrow> ('p, 'x) world \<Rightarrow> ('p, 'x) world" where
  "emit e w = w\<lparr>page := page w @ [e]\<rparr>"

text \<open>
  scapy's \<^verbatim>\<open>sniff(prn, store=False, stop_filter)\<close> over the frames the packet source
  delivers: \<^verbatim>\<open>prn\<close> is called on each frame; when a \<^verbatim>\<open>stop_filter\<close> is given, the loop
  ends after the first frame for which it holds. Nothing is stored.
\<close>

fun sniff :: "('f \<Rightarrow> 's \<Rightarrow> 's) \<Rightarrow> ('f \<Rightarrow> bool) option \<Rightarrow> 'f list \<Rightarrow> 's \<Rightarrow> 's" where
  "sniff prn stop_filter [] s = s"
| "sniff prn stop_filter (f # fs) s =
     (let s' = prn f s
      in case stop_filter of
           None \<Rightarrow> sniff prn stop_filter fs s'
         | Some stop \<Rightarrow> if stop f then s' else sniff prn stop_filter fs s')"

text \<open>
  The thread body \<^verbatim>\<open>capture_packets\<close> of \<^verbatim>\<open>start_packet_capture\<close>, on the processor
  object it is bound to: \<^verbatim>\<open>sniff(prn=processor.process_packet, store=False)\<close>.
\<close>

definition capture_packets :: "('p, 'f, 'x) packet_processor_class \<Rightarrow> 'f list \<Rightarrow> 'p \<Rightarrow> 'p" where
  "capture_packets PacketProcessor frames processor_obj =
     sniff (process_packet PacketProcessor) None frames processor_obj"

text \<open>
  \<^verbatim>\<open>start_packet_capture\<close>: constructs the processor by \<^verbatim>\<open>PacketProcessor()\<close>, a call
  without arguments, starts the daemon thread bound to it and returns the processor. The result type follows the annotation
  \<^verbatim>\<open>Optional[PacketProcessor]\<close>.
\<close>

definition start_packet_capture ::
  "('p, 'f, 'x) packet_processor_class \<Rightarrow> ('p, 'x) world \<Rightarrow> (error + nat option) \<times> ('p, 'x) world" where
  "start_packet_capture PacketProcessor w =
     (case init PacketProcessor [] of
        Inl e \<Rightarrow> (Inl e, w)
      | Inr processor_obj \<Rightarrow>
          (let r = next_ref w;
               w = w\<lparr>heap := (heap w)(r := Some processor_obj), next_ref := Suc r\<rparr>;
               w = w\<lparr>threads := threads w @ [r]\<rparr>
           in (Inr (Some r), w)))"

text \<open>\<^verbatim>\<open>df.tail(n)\<close>: the last \<open>n\<close> rows, in their order.\<close>

definition tail :: "nat \<Rightarrow> 'a list \<Rightarrow> 'a list" where
  "tail n xs = drop (length xs - n) xs"

text \<open>
  \<^verbatim>\<open>df[['timestamp', 'source', 'destination', 'protocol', 'size']]\<close>: the five columns
  of every row.
\<close>

definition select_columns :: "'x dataframe \<Rightarrow> packet_row list" where
  "select_columns df = map packet_row.truncate df"

datatype outcome = Rerun | Raised error

text \<open>
  One script run of \<^verbatim>\<open>main\<close>. Streamlit rebuilds the page on every run, so the page
  starts empty. \<open>clicked\<close> is what \<^verbatim>\<open>st.button('Refresh Data')\<close> returns. A run ends
  by \<^verbatim>\<open>st.rerun()\<close>, at once when the button was clicked and after \<^verbatim>\<open>time.sleep(2)\<close>
  otherwise, or by an exception. The blocks of \<^verbatim>\<open>main\<close> are defined one by one.
\<close>

text \<open>Lines 42 to 44: initialise the packet processor in the session state.\<close>

definition initialize ::
  "('p, 'f, 'x) packet_processor_class \<Rightarrow> ('p, 'x) world \<Rightarrow> error + ('p, 'x) world" where
  "initialize PacketProcessor w =
     (if processor (session_state w) = None then
        (case start_packet_capture PacketProcessor w of
           (Inl e, w) \<Rightarrow> Inl e
         | (Inr v, w) \<Rightarrow>
             (let w = w\<lparr>session_state := (session_state w)\<lparr>processor := Some v\<rparr>\<rparr>;
                  (t, w) = time_time w
              in Inr (w\<lparr>session_state := (session_state w)\<lparr>start_time := Some t\<rparr>\<rparr>)))
      else Inr w)"

text \<open>
  Lines 50 to 55: fetch the current data. A reference always denotes an object in
  Python; a reference without an object in \<open>heap\<close> gives the empty table here.
\<close>

definition fetch_current_data ::
  "('p, 'f, 'x) packet_processor_class \<Rightarrow> ('p, 'x) world \<Rightarrow> 'x dataframe \<times> ('p, 'x) world" where
  "fetch_current_data PacketProcessor w =
     (case processor (session_state w) of
        Some (Some r) \<Rightarrow>
          (case heap w r of
             Some processor_obj \<Rightarrow> (get_dataframe PacketProcessor processor_obj, w)
           | None \<Rightarrow> ([], w))
      | _ \<Rightarrow> ([], emit (Warning ''Packet processor is not initialized.'') w))"

text \<open>Lines 58 to 62: display the metrics.\<close>

definition display_metrics :: "'x dataframe \<Rightarrow> ('p, 'x) world \<Rightarrow> error option \<times> ('p, 'x) world" where
  "display_metrics df w =
     (let w = emit (Metric 1 ''Total Packets'' (Count (length df))) w;
          (now, w) = time_time w
      in case start_time (session_state w) of
           None \<Rightarrow> (Some AttributeError, w)
         | Some t \<Rightarrow> (None, emit (Metric 2 ''Capture Duration'' (Seconds (now - t))) w))"

text \<open>Lines 71 to 76: display the recent packets.\<close>

definition display_recent_packets :: "'x dataframe \<Rightarrow> ('p, 'x) world \<Rightarrow> ('p, 'x) world" where
  "display_recent_packets df w =
     (let w = emit (Subheader ''Recent Packets'') w
      in if length df > 0 then emit (Dataframe (select_columns (tail 10 df))) w else w)"

text \<open>
  \<^verbatim>\<open>time.sleep\<close> changes nothing in the state of the session; the time that passes shows
  in the later readings of the clock.
\<close>

definition time_sleep :: "real \<Rightarrow> ('p, 'x) world \<Rightarrow> ('p, 'x) world" where
  "time_sleep secs w = w"

definition main ::
  "('p, 'f, 'x) packet_processor_class \<Rightarrow> bool \<Rightarrow> ('p, 'x) world \<Rightarrow> outcome \<times> ('p, 'x) world" where
  "main PacketProcessor clicked w =
     (let w = w\<lparr>page := []\<rparr>;
          w = emit (Page_config ''Network Traffic Analysis'' ''wide'') w;
          w = emit (Title ''Real-time Network Traffic Analysis'') w
      in case initialize PacketProcessor w of
           Inl e \<Rightarrow> (Raised e, w)
         | Inr w \<Rightarrow>
             (let w = emit (Columns 2) w;
                  (df, w) = fetch_current_data PacketProcessor w
              in case display_metrics df w of
                   (Some e, w) \<Rightarrow> (Raised e, w)
                 | (None, w) \<Rightarrow>
                     (let w = emit (Write ''Current DataFrame:'' df) w
                      in case create_visualizations df (page w) of
                           (Inl e, pg) \<Rightarrow> (Raised e, w\<lparr>page := pg\<rparr>)
                         | (Inr df, pg) \<Rightarrow>
                             (let w = display_recent_packets df (w\<lparr>page := pg\<rparr>);
                                  w = emit (Button ''Refresh Data'') w
                              in if clicked then (Rerun, w)
                                 else (let w = time_sleep 2 w in (Rerun, w))))))"

text \<open>
  A session: script runs of \<^verbatim>\<open>main\<close>, and between them the frames that the packet source
  delivers to the capture threads; each thread runs \<^verbatim>\<open>capture_packets\<close> on its processor.
\<close>

datatype 'f event = Script_run bool | Frames "'f list"

definition deliver :: "('p, 'f, 'x) packet_processor_class \<Rightarrow> 'f list \<Rightarrow> ('p, 'x) world \<Rightarrow> ('p, 'x) world" where
  "deliver PacketProcessor frames w =
     w\<lparr>heap := (\<lambda>r. if r \<in> set (threads w)
                      then map_option (capture_packets PacketProcessor frames) (heap w r)
                      else heap w r)\<rparr>"

fun step :: "('p, 'f, 'x) packet_processor_class \<Rightarrow> ('p, 'x) world \<Rightarrow> 'f event \<Rightarrow> ('p, 'x) world" where
  "step PacketProcessor w (Script_run clicked) = snd (main PacketProcessor clicked w)"
| "step PacketProcessor w (Frames frames) = deliver PacketProcessor frames w"

definition run :: "('p, 'f, 'x) packet_processor_class \<Rightarrow> 'f event list \<Rightarrow> ('p, 'x) world \<Rightarrow> ('p, 'x) world" where
  "run PacketProcessor events w = foldl (step PacketProcessor) w events"

text \<open>The start of a session: nothing in the session state, no object, no thread.\<close>

definition new_session :: "(nat \<Rightarrow> real) \<Rightarrow> ('p, 'x) world" where
  "new_session clk =
     \<lparr>session_state = \<lparr>processor = None, start_time = None\<rparr>, page = [],
      heap = (\<lambda>r. None), next_ref = 0, threads = [], clock = clk, ticks = 0\<rparr>"

section \<open>Notions used in the statements\<close>

text \<open>The instant of a timestamp cell, in nanoseconds since the epoch.\<close>

fun nanos :: "timestamp \<Rightarrow> int" where
  "nanos (Epoch n) = n"
| "nanos (Datetime n) = n"

text \<open>The table with its \<^verbatim>\<open>timestamp\<close> column converted by \<^verbatim>\<open>pd.to_datetime\<close>.\<close>

definition to_datetime_column :: "'x dataframe \<Rightarrow> 'x dataframe" where
  "to_datetime_column df = map (\<lambda>r. r\<lparr>timestamp := to_datetime (timestamp r)\<rparr>) df"

text \<open>What \<^verbatim>\<open>create_visualizations\<close> adds to the page for a table.\<close>

definition charts :: "'x dataframe \<Rightarrow> 'x ui list" where
  "charts df =
     (if df = [] then [Info ''No data to visualize.'']
      else [Plotly_chart (Pie (map snd (value_counts (map protocol df)))
                              (map fst (value_counts (map protocol df)))
                              ''Protocol Distribution''),
            Plotly_chart (Line (map fst (groupby_size (map (\<lambda>t. nanos t div 1000000000 * 1000000000) (map timestamp df))))
                               (map snd (groupby_size (map (\<lambda>t. nanos t div 1000000000 * 1000000000) (map timestamp df))))
                               ''Packets per Second''),
            Plotly_chart (Bar (map fst (take 10 (value_counts (map source df))))
                              (map snd (take 10 (value_counts (map source df))))
                              ''Top Source IP Addresses'')])"

text \<open>The page of a script run that shows the table \<open>df\<close> and the duration \<open>d\<close>.\<close>

definition dashboard_page :: "'x dataframe \<Rightarrow> real \<Rightarrow> 'x ui list" where
  "dashboard_page df d =
     [Page_config ''Network Traffic Analysis'' ''wide'',
      Title ''Real-time Network Traffic Analysis'',
      Columns 2,
      Metric 1 ''Total Packets'' (Count (length df)),
      Metric 2 ''Capture Duration'' (Seconds d),
      Write ''Current DataFrame:'' df]
     @ charts df
     @ [Subheader ''Recent Packets'']
     @ (if df = [] then [] else [Dataframe (select_columns (tail 10 (to_datetime_column df)))])
     @ [Button ''Refresh Data'']"

text \<open>
  The session after lines 42 to 44 have run in a session without a processor, when the
  constructor returned the object \<open>p\<close>.
\<close>

definition started :: "'p \<Rightarrow> ('p, 'x) world \<Rightarrow> ('p, 'x) world" where
  "started p w =
     w\<lparr>session_state :=
         \<lparr>processor = Some (Some (next_ref w)), start_time = Some (clock w (ticks w))\<rparr>,
       heap := (heap w)(next_ref w := Some p),
       next_ref := Suc (next_ref w),
       threads := threads w @ [next_ref w],
       ticks := Suc (ticks w)\<rparr>"

text \<open>Readings of a page: the total counts, the durations, the tables, the warnings.\<close>

fun total_counts :: "'x ui list \<Rightarrow> metric_value list" where
  "total_counts [] = []"
| "total_counts (Metric c label v # es) =
     (if label = ''Total Packets'' then v # total_counts es else total_counts es)"
| "total_counts (e # es) = total_counts es"

fun durations :: "'x ui list \<Rightarrow> real list" where
  "durations [] = []"
| "durations (Metric c label (Seconds d) # es) =
     (if label = ''Capture Duration'' then d # durations es else durations es)"
| "durations (e # es) = durations es"

fun tables :: "'x ui list \<Rightarrow> packet_row list list" where
  "tables [] = []"
| "tables (Dataframe rows # es) = rows # tables es"
| "tables (e # es) = tables es"

fun warnings :: "'x ui list \<Rightarrow> string list" where
  "warnings [] = []"
| "warnings (Warning msg # es) = msg # warnings es"
| "warnings (e # es) = warnings es"

fun plotly_charts :: "'x ui list \<Rightarrow> figure list" where
  "plotly_charts [] = []"
| "plotly_charts (Plotly_chart fig # es) = fig # plotly_charts es"
| "plotly_charts (e # es) = plotly_charts es"

text \<open>
  A session is in order when the processor of its session state, if any, is an object
  and the start time is recorded with it.
\<close>

definition session_ok :: "('p, 'x) world \<Rightarrow> bool" where
  "session_ok w =
     (case processor (session_state w) of
        None \<Rightarrow> True
      | Some None \<Rightarrow> False
      | Some (Some r) \<Rightarrow> heap w r \<noteq> None \<and> start_time (session_state w) \<noteq> None)"

text \<open>
  In a session every processor and every capture thread comes from the first successful
  start-up: there is none before it, and just one of each, at reference 0, after it.
\<close>

definition session_inv :: "('p, 'x) world \<Rightarrow> bool" where
  "session_inv w =
     (case processor (session_state w) of
        None \<Rightarrow> next_ref w = 0 \<and> threads w = []
      | Some v \<Rightarrow>
          v = Some 0 \<and> next_ref w = 1 \<and> threads w = [0] \<and> heap w 0 \<noteq> None \<and>
          start_time (session_state w) \<noteq> None)"

subsection \<open>Example classes, tables and clocks\<close>

text \<open>
  Modelled from the spec: a \<^verbatim>\<open>PacketProcessor\<close> on the record store with the capacity
  fixed inside the class, constructed without arguments as the dashboard does; a frame
  is the record the classifier makes of it.
\<close>

definition store_class ::
  "nat \<Rightarrow> ('x packet_row_scheme record_store, 'x packet_row_scheme, 'x) packet_processor_class" where
  "store_class cap =
     \<lparr>init = (\<lambda>args. case args of [] \<Rightarrow> Inr (new_store cap) | _ \<Rightarrow> Inl TypeError),
      process_packet = append_store,
      get_dataframe = snapshot\<rparr>"

text \<open>
  Modelled from the spec: the same class with the capacity as the one argument of the
  constructor ("capacity: fixed at construction", "an explicit startup parameter").
\<close>

definition sized_store_class ::
  "('x packet_row_scheme record_store, 'x packet_row_scheme, 'x) packet_processor_class" where
  "sized_store_class =
     \<lparr>init = (\<lambda>args. case args of [cap] \<Rightarrow> Inr (new_store cap) | _ \<Rightarrow> Inl TypeError),
      process_packet = append_store,
      get_dataframe = snapshot\<rparr>"

text \<open>The class with the capacity as an optional argument, two by default.\<close>

definition optional_store_class ::
  "('x packet_row_scheme record_store, 'x packet_row_scheme, 'x) packet_processor_class" where
  "optional_store_class =
     \<lparr>init = (\<lambda>args. case args of [] \<Rightarrow> Inr (new_store 2) | cap # _ \<Rightarrow> Inr (new_store cap)),
      process_packet = append_store,
      get_dataframe = snapshot\<rparr>"

definition row_datetime :: packet_row where
  "row_datetime =
     \<lparr>timestamp = Datetime 1500000000, source = ''10.0.0.1'', destination = ''10.0.0.2'',
      protocol = TCP, size_col = 100\<rparr>"

definition row_epoch :: packet_row where
  "row_epoch =
     \<lparr>timestamp = Epoch 2500000000, source = ''10.0.0.2'', destination = ''10.0.0.1'',
      protocol = UDP, size_col = 60\<rparr>"

text \<open>A clock that advances one second per reading, and one that is set back.\<close>

definition steady_clock :: "nat \<Rightarrow> real" where
  "steady_clock n = real n"

definition set_back_clock :: "nat \<Rightarrow> real" where
  "set_back_clock n = (if n < 2 then 100 + real n else 50)"

text \<open>A cancellation condition that is raised all the time.\<close>

definition cancel_raised :: "'f \<Rightarrow> bool" where
  "cancel_raised f = True"

section \<open>Properties of the record store\<close>

declare time_sleep_def [simp]

lemma capacity_append [simp]: "capacity (append_store r s) = capacity s"
  by (simp add: append_store_def Let_def)

lemma capacity_append_all [simp]: "capacity (append_all rs s) = capacity s"
  by (induction rs arbitrary: s) simp_all

lemma append_evict_first_eq:
  "0 < capacity s \<Longrightarrow> append_evict_first r s = append_store r s"
  by (cases "records s") (simp_all add: append_evict_first_def append_store_def Let_def)

lemma records_append:
  "length (records s) \<le> capacity s \<Longrightarrow>
   records (append_store r s) = drop (length (records s) + 1 - capacity s) (records s @ [r])"
  by (cases "records s") (auto simp: append_store_def Let_def drop_Cons' le_Suc_eq)

lemma length_records_append:
  "length (records s) \<le> capacity s \<Longrightarrow> length (records (append_store r s)) \<le> capacity s"
  by (simp add: records_append)

lemma records_append_all:
  "length (records s) \<le> capacity s \<Longrightarrow>
   records (append_all rs s) =
     drop (length (records s) + length rs - capacity s) (records s @ rs)"
proof (induction rs arbitrary: s)
  case Nil
  then show ?case by simp
next
  case (Cons r rs)
  let ?s = "append_store r s"
  let ?k = "length (records s) + 1 - capacity s"
  have len: "length (records ?s) \<le> capacity ?s"
    using Cons.prems by (simp add: length_records_append)
  have recs: "records ?s = drop ?k (records s @ [r])"
    using Cons.prems by (rule records_append)
  have lens: "length (records ?s) = length (records s) + 1 - ?k"
    by (simp add: recs)
  have "records (append_all (r # rs) s) = records (append_all rs ?s)"
    by simp
  also have "\<dots> = drop (length (records ?s) + length rs - capacity ?s) (records ?s @ rs)"
    using len by (rule Cons.IH)
  also have "records ?s @ rs = drop ?k (records s @ r # rs)"
  proof -
    have "drop ?k (records s @ r # rs) = drop ?k ((records s @ [r]) @ rs)"
      by simp
    also have "\<dots> = drop ?k (records s @ [r]) @ rs"
      by (simp only: drop_append) simp
    finally show ?thesis by (simp add: recs)
  qed
  also have "drop (length (records ?s) + length rs - capacity ?s) (drop ?k (records s @ r # rs))
      = drop (length (records s) + length (r # rs) - capacity s) (records s @ r # rs)"
  proof -
    have "length (records ?s) + length rs - capacity ?s + ?k
        = length (records s) + length (r # rs) - capacity s"
      using Cons.prems by (simp add: lens)
    then show ?thesis by (simp only: drop_drop)
  qed
  finally show ?case .
qed

text \<open>
  C1. The record store is bounded: after any sequence of appends to a new store its
  length never exceeds the configured capacity, and after more appends than the capacity
  a snapshot holds exactly the last \<open>capacity\<close> appended records, oldest first.
\<close>

theorem store_bounded_keeps_latest:
  "length (snapshot (append_all rs (new_store cap))) \<le> cap \<and>
   (cap < length rs \<longrightarrow>
      length (snapshot (append_all rs (new_store cap))) = cap \<and>
      snapshot (append_all rs (new_store cap)) = drop (length rs - cap) rs)"
proof -
  have "records (append_all rs (new_store cap)) = drop (length rs - cap) rs"
    using records_append_all [of "new_store cap" rs] by (simp add: new_store_def)
  then show ?thesis by (auto simp: snapshot_def)
qed

theorem store_bounded_keeps_latest_witness:
  "length (snapshot (append_all [1, 2, 3 :: nat] (new_store 2))) \<le> 2 \<and>
   length (snapshot (append_all [1, 2, 3 :: nat] (new_store 2))) = 2 \<and>
   snapshot (append_all [1, 2, 3 :: nat] (new_store 2)) = [2, 3]"
  using store_bounded_keeps_latest [of "[1, 2, 3 :: nat]" 2] by simp

section \<open>Properties of the charts\<close>

lemma dt_floor_S_to_datetime:
  "dt_floor_S (map to_datetime ts) = Inr (map (\<lambda>t. nanos t div 1000000000 * 1000000000) ts)"
proof (induction ts)
  case Nil
  show ?case by simp
next
  case (Cons t ts)
  then show ?case by (cases t) simp_all
qed

lemma timestamp_to_datetime_column:
  "map timestamp (to_datetime_column df) = map to_datetime (map timestamp df)"
  by (simp add: to_datetime_column_def)

lemma source_to_datetime_column: "map source (to_datetime_column df) = map source df"
  by (simp add: to_datetime_column_def)

lemma length_to_datetime_column [simp]: "length (to_datetime_column df) = length df"
  by (simp add: to_datetime_column_def)

lemma render_timeline:
  "render PacketsTimelineChart df pg =
     (Inr (to_datetime_column df),
      pg @ [Plotly_chart (Line (map fst (groupby_size (map (\<lambda>t. nanos t div 1000000000 * 1000000000) (map timestamp df))))
                               (map snd (groupby_size (map (\<lambda>t. nanos t div 1000000000 * 1000000000) (map timestamp df))))
                               ''Packets per Second'')])"
proof -
  have "dt_floor_S (map timestamp (to_datetime_column df))
      = Inr (map (\<lambda>t. nanos t div 1000000000 * 1000000000) (map timestamp df))"
    by (simp only: timestamp_to_datetime_column dt_floor_S_to_datetime)
  then show ?thesis
    by (simp add: Let_def to_datetime_column_def)
qed

lemma create_visualizations_eq:
  "create_visualizations df pg = (Inr (to_datetime_column df), pg @ charts df)"
proof (cases "df = []")
  case True
  then show ?thesis by (simp add: create_visualizations_def charts_def to_datetime_column_def)
next
  case False
  then show ?thesis
    by (simp add: create_visualizations_def render_timeline charts_def source_to_datetime_column
        Let_def del: render.simps(3))
qed

lemma to_datetime_column_id:
  "to_datetime_column df = df \<longleftrightarrow> (\<forall>r \<in> set df. \<exists>n. timestamp r = Datetime n)"
proof (induction df)
  case Nil
  show ?case by (simp add: to_datetime_column_def)
next
  case (Cons r df)
  have "r\<lparr>timestamp := to_datetime (timestamp r)\<rparr> = r \<longleftrightarrow> (\<exists>n. timestamp r = Datetime n)"
  proof (cases "timestamp r")
    case (Epoch n)
    have "timestamp (r\<lparr>timestamp := Datetime n\<rparr>) \<noteq> timestamp r"
      using Epoch by simp
    then have "r\<lparr>timestamp := Datetime n\<rparr> \<noteq> r" by metis
    then show ?thesis using Epoch by simp
  next
    case (Datetime n)
    then show ?thesis by simp
  qed
  then show ?case using Cons by (simp add: to_datetime_column_def)
qed

section \<open>Properties of a script run\<close>

lemma initialize_present:
  "processor (session_state w) = Some v \<Longrightarrow> initialize PP w = Inr w"
  by (simp add: initialize_def)

lemma initialize_absent_ok:
  "processor (session_state w) = None \<Longrightarrow> init PP [] = Inr p \<Longrightarrow>
   initialize PP w = Inr (started p w)"
  by (simp add: initialize_def start_packet_capture_def time_time_def started_def Let_def)

lemma initialize_absent_fail:
  "processor (session_state w) = None \<Longrightarrow> init PP [] = Inl e \<Longrightarrow> initialize PP w = Inl e"
  by (simp add: initialize_def start_packet_capture_def)

lemma main_initialised:
  assumes "processor (session_state w) = Some (Some r)" and "heap w r = Some p"
    and "start_time (session_state w) = Some t"
  shows "main PP c w =
     (Rerun, w\<lparr>page := dashboard_page (get_dataframe PP p) (clock w (ticks w) - t),
               ticks := Suc (ticks w)\<rparr>)"
  using assms
  by (simp add: main_def initialize_def emit_def fetch_current_data_def display_metrics_def
      time_time_def create_visualizations_eq display_recent_packets_def dashboard_page_def
      Let_def to_datetime_column_def)

lemma main_absent_ok:
  assumes "processor (session_state w) = None" and "init PP [] = Inr p"
  shows "main PP c w = main PP c (started p w)"
proof -
  let ?pg = "[Page_config ''Network Traffic Analysis'' ''wide'', Title ''Real-time Network Traffic Analysis'']"
  have a: "initialize PP (w\<lparr>page := ?pg\<rparr>) = Inr (started p (w\<lparr>page := ?pg\<rparr>))"
    using assms by (simp add: initialize_absent_ok)
  have b: "initialize PP ((started p w)\<lparr>page := ?pg\<rparr>) = Inr ((started p w)\<lparr>page := ?pg\<rparr>)"
    by (rule initialize_present [where v = "Some (next_ref w)"]) (simp add: started_def)
  have c: "started p (w\<lparr>page := ?pg\<rparr>) = (started p w)\<lparr>page := ?pg\<rparr>"
    by (simp add: started_def)
  show ?thesis
    by (simp add: main_def emit_def a b c)
qed

lemma main_absent_fail:
  assumes "processor (session_state w) = None" and "init PP [] = Inl e"
  shows "main PP c w =
     (Raised e, w\<lparr>page := [Page_config ''Network Traffic Analysis'' ''wide'',
                              Title ''Real-time Network Traffic Analysis'']\<rparr>)"
  using assms by (simp add: main_def emit_def initialize_absent_fail)

lemma main_after_initialize:
  assumes "initialize PP w = Inr w1"
  shows "main PP c w = main PP c w1"
proof (cases "processor (session_state w)")
  case None
  show ?thesis
  proof (cases "init PP []")
    case (Inl e)
    then show ?thesis using None assms by (simp add: initialize_absent_fail)
  next
    case (Inr p)
    then have "w1 = started p w" using None assms by (simp add: initialize_absent_ok)
    then show ?thesis using None Inr by (simp add: main_absent_ok)
  qed
next
  case (Some v)
  then show ?thesis using assms by (simp add: initialize_present)
qed

lemma total_counts_append [simp]:
  "total_counts (xs @ ys) = total_counts xs @ total_counts ys"
  by (induction xs rule: total_counts.induct) simp_all

lemma durations_append [simp]: "durations (xs @ ys) = durations xs @ durations ys"
  by (induction xs rule: durations.induct) simp_all

lemma tables_append [simp]: "tables (xs @ ys) = tables xs @ tables ys"
  by (induction xs rule: tables.induct) simp_all

lemma warnings_append [simp]: "warnings (xs @ ys) = warnings xs @ warnings ys"
  by (induction xs rule: warnings.induct) simp_all

lemma plotly_charts_append [simp]:
  "plotly_charts (xs @ ys) = plotly_charts xs @ plotly_charts ys"
  by (induction xs rule: plotly_charts.induct) simp_all

lemma total_counts_dashboard_page [simp]:
  "total_counts (dashboard_page df d) = [Count (length df)]"
  by (simp add: dashboard_page_def charts_def)

lemma durations_dashboard_page [simp]: "durations (dashboard_page df d) = [d]"
  by (simp add: dashboard_page_def charts_def)

lemma warnings_dashboard_page [simp]: "warnings (dashboard_page df d) = []"
  by (simp add: dashboard_page_def charts_def)

lemma tables_dashboard_page [simp]:
  "tables (dashboard_page df d) =
     (if df = [] then [] else [select_columns (tail 10 (to_datetime_column df))])"
  by (simp add: dashboard_page_def charts_def)

lemma plotly_charts_dashboard_page:
  "plotly_charts (dashboard_page df d) = plotly_charts (charts df)"
  by (simp add: dashboard_page_def)

text \<open>
  C6. A script run before any frame has been captured is not an error: when the table
  obtained from the processor is empty, the run ends by the rerun, without an exception,
  and its page shows a total count of zero, the note that there is no data in place of
  the charts, and no table of recent packets.
\<close>

theorem empty_view_no_error:
  assumes "initialize PP w = Inr w1"
    and "processor (session_state w1) = Some (Some r)"
    and "heap w1 r = Some p"
    and "start_time (session_state w1) = Some t"
    and "get_dataframe PP p = []"
  shows "main PP c w =
     (Rerun,
      w1\<lparr>page :=
           [Page_config ''Network Traffic Analysis'' ''wide'',
            Title ''Real-time Network Traffic Analysis'',
            Columns 2,
            Metric 1 ''Total Packets'' (Count 0),
            Metric 2 ''Capture Duration'' (Seconds (clock w1 (ticks w1) - t)),
            Write ''Current DataFrame:'' [],
            Info ''No data to visualize.'',
            Subheader ''Recent Packets'',
            Button ''Refresh Data''],
         ticks := Suc (ticks w1)\<rparr>)"
proof -
  have "main PP c w = main PP c w1"
    using assms(1) by (rule main_after_initialize)
  also have "\<dots> = (Rerun, w1\<lparr>page := dashboard_page (get_dataframe PP p) (clock w1 (ticks w1) - t),
                               ticks := Suc (ticks w1)\<rparr>)"
    using assms(2-4) by (rule main_initialised)
  finally show ?thesis
    using assms(5) by (simp add: dashboard_page_def charts_def)
qed

lemma new_session_simps [simp]:
  "processor (session_state (new_session clk)) = None"
  "start_time (session_state (new_session clk)) = None"
  "heap (new_session clk) r = None"
  "next_ref (new_session clk) = 0"
  "threads (new_session clk) = []"
  "clock (new_session clk) = clk"
  "ticks (new_session clk) = 0"
  "page (new_session clk) = []"
  by (simp_all add: new_session_def)

lemma started_simps [simp]:
  "session_state (started p w) =
     \<lparr>processor = Some (Some (next_ref w)), start_time = Some (clock w (ticks w))\<rparr>"
  "heap (started p w) = (heap w)(next_ref w := Some p)"
  "next_ref (started p w) = Suc (next_ref w)"
  "threads (started p w) = threads w @ [next_ref w]"
  "clock (started p w) = clock w"
  "ticks (started p w) = Suc (ticks w)"
  "page (started p w) = page w"
  by (simp_all add: started_def)

lemma store_class_simps [simp]:
  "init (store_class cap) [] = Inr (new_store cap)"
  "process_packet (store_class cap) = append_store"
  "get_dataframe (store_class cap) = snapshot"
  by (simp_all add: store_class_def)

theorem empty_view_no_error_witness:
  "main (store_class 2) False (new_session steady_clock :: (packet_row record_store, unit) world) =
     (Rerun,
      (started (new_store 2) (new_session steady_clock))\<lparr>page :=
           [Page_config ''Network Traffic Analysis'' ''wide'',
            Title ''Real-time Network Traffic Analysis'',
            Columns 2,
            Metric 1 ''Total Packets'' (Count 0),
            Metric 2 ''Capture Duration'' (Seconds 1),
            Write ''Current DataFrame:'' [],
            Info ''No data to visualize.'',
            Subheader ''Recent Packets'',
            Button ''Refresh Data''],
         ticks := 2\<rparr>)"
proof -
  let ?w = "new_session steady_clock :: (packet_row record_store, unit) world"
  let ?w1 = "started (new_store 2) ?w"
  have 1: "initialize (store_class 2) ?w = Inr ?w1"
    by (simp add: initialize_absent_ok)
  have 2: "processor (session_state ?w1) = Some (Some 0)" by simp
  have 3: "heap ?w1 0 = Some (new_store 2)" by simp
  have 4: "start_time (session_state ?w1) = Some 0" by (simp add: steady_clock_def)
  have 5: "get_dataframe (store_class 2) (new_store 2 :: packet_row record_store) = []"
    by (simp add: snapshot_def new_store_def)
  show ?thesis
    using empty_view_no_error [OF 1 2 3 4 5, of False]
    by (simp add: steady_clock_def numeral_2_eq_2)
qed

text \<open>
  C8. For every non-empty table \<^verbatim>\<open>create_visualizations\<close> raises nothing and adds
  exactly three charts to the page, in this order: the pie chart of the protocol
  distribution, the line chart of packets per second and the bar chart of the source
  addresses, which has at most ten bars. For the empty table it adds no chart, only the
  note that there is no data.
\<close>

theorem create_visualizations_three_charts:
  "(df \<noteq> [] \<longrightarrow>
      (\<exists>df' vs ns x y xs ys.
          create_visualizations df pg =
            (Inr df',
             pg @ [Plotly_chart (Pie vs ns ''Protocol Distribution''),
                   Plotly_chart (Line x y ''Packets per Second''),
                   Plotly_chart (Bar xs ys ''Top Source IP Addresses'')])
          \<and> length xs \<le> 10)) \<and>
   (df = [] \<longrightarrow> create_visualizations df pg = (Inr [], pg @ [Info ''No data to visualize.'']))"
  by (simp add: create_visualizations_eq charts_def to_datetime_column_def)

theorem create_visualizations_three_charts_witness:
  "[row_epoch, row_datetime, row_epoch] \<noteq> [] \<and>
   create_visualizations [row_epoch, row_datetime, row_epoch] [] =
     (Inr [row_epoch\<lparr>timestamp := Datetime 2500000000\<rparr>, row_datetime,
           row_epoch\<lparr>timestamp := Datetime 2500000000\<rparr>],
      [Plotly_chart (Pie [2, 1] [UDP, TCP] ''Protocol Distribution''),
       Plotly_chart (Line [1000000000, 2000000000] [1, 2] ''Packets per Second''),
       Plotly_chart (Bar [''10.0.0.2'', ''10.0.0.1''] [2, 1] ''Top Source IP Addresses'')]) \<and>
   create_visualizations ([] :: unit dataframe) [] = (Inr [], [Info ''No data to visualize.''])"
proof -
  have "create_visualizations [row_epoch, row_datetime, row_epoch] [] =
     (Inr [row_epoch\<lparr>timestamp := Datetime 2500000000\<rparr>, row_datetime,
           row_epoch\<lparr>timestamp := Datetime 2500000000\<rparr>],
      [Plotly_chart (Pie [2, 1] [UDP, TCP] ''Protocol Distribution''),
       Plotly_chart (Line [1000000000, 2000000000] [1, 2] ''Packets per Second''),
       Plotly_chart (Bar [''10.0.0.2'', ''10.0.0.1''] [2, 1] ''Top Source IP Addresses'')])"
    by (simp add: create_visualizations_def row_epoch_def row_datetime_def value_counts_def
        groupby_size_def Let_def)
  then show ?thesis
    using create_visualizations_three_charts [of "[] :: unit dataframe" "[]"]
      create_visualizations_three_charts [of "[row_epoch, row_datetime, row_epoch]" "[]"]
    by simp
qed

text \<open>
  C9 (the claim as it stands). A table whose timestamps are datetimes already comes back
  from \<^verbatim>\<open>create_visualizations\<close> as it went in.
\<close>

theorem create_visualizations_datetime_table_unchanged:
  "[row_datetime] \<noteq> [] \<and> fst (create_visualizations [row_datetime] []) = Inr [row_datetime]"
  by (simp add: create_visualizations_eq to_datetime_column_def row_datetime_def)

text \<open>
  C9 (amended). \<^verbatim>\<open>PacketsTimelineChart.render\<close> reassigns the \<^verbatim>\<open>timestamp\<close> column of
  the table it is given to its conversion by \<^verbatim>\<open>pd.to_datetime\<close>, and after
  \<^verbatim>\<open>create_visualizations\<close> on a non-empty table the caller's table is the table with
  that column converted, every other column and the order of the rows as before. It
  differs from the table that went in exactly when some timestamp was not a datetime
  already.
\<close>

theorem timeline_chart_converts_timestamps:
  "fst (render PacketsTimelineChart df pg) = Inr (to_datetime_column df) \<and>
   (df \<noteq> [] \<longrightarrow>
      fst (create_visualizations df pg) = Inr (to_datetime_column df) \<and>
      (to_datetime_column df \<noteq> df \<longleftrightarrow> (\<exists>r \<in> set df. \<exists>n. timestamp r = Epoch n))) \<and>
   map source (to_datetime_column df) = map source df \<and>
   map destination (to_datetime_column df) = map destination df \<and>
   map protocol (to_datetime_column df) = map protocol df \<and>
   map size_col (to_datetime_column df) = map size_col df \<and>
   map packet_row.more (to_datetime_column df) = map packet_row.more df \<and>
   map timestamp (to_datetime_column df) = map (\<lambda>r. Datetime (nanos (timestamp r))) df"
proof -
  have "(to_datetime_column df \<noteq> df) = (\<exists>r \<in> set df. \<exists>n. timestamp r = Epoch n)"
  proof -
    have "(\<forall>r \<in> set df. \<exists>n. timestamp r = Datetime n) = (\<not> (\<exists>r \<in> set df. \<exists>n. timestamp r = Epoch n))"
      by (metis timestamp.exhaust timestamp.distinct(1))
    then show ?thesis by (simp add: to_datetime_column_id)
  qed
  moreover have "to_datetime t = Datetime (nanos t)" for t
    by (cases t) simp_all
  then have "map timestamp (to_datetime_column df) = map (\<lambda>r. Datetime (nanos (timestamp r))) df"
    by (simp add: to_datetime_column_def)
  moreover have "map source (to_datetime_column df) = map source df"
    and "map destination (to_datetime_column df) = map destination df"
    and "map protocol (to_datetime_column df) = map protocol df"
    and "map size_col (to_datetime_column df) = map size_col df"
    and "map packet_row.more (to_datetime_column df) = map packet_row.more df"
    by (simp_all add: to_datetime_column_def)
  ultimately show ?thesis
    by (simp add: render_timeline create_visualizations_eq del: render.simps)
qed

theorem timeline_chart_converts_timestamps_witness:
  "[row_epoch] \<noteq> [] \<and>
   fst (create_visualizations [row_epoch] []) = Inr [row_epoch\<lparr>timestamp := Datetime 2500000000\<rparr>] \<and>
   to_datetime_column [row_epoch] \<noteq> [row_epoch]"
  using timeline_chart_converts_timestamps [of "[row_epoch]" "[]"]
  by (simp add: to_datetime_column_def row_epoch_def)

section \<open>Properties of the capture loop\<close>

lemma sniff_no_stop_filter:
  "sniff prn None frames s = foldl (\<lambda>s f. prn f s) s frames"
  by (induction frames arbitrary: s) (simp_all add: Let_def)

lemma append_all_foldl: "append_all rs s = foldl (\<lambda>s r. append_store r s) s rs"
  by (induction rs arbitrary: s) simp_all

lemma capture_packets_store_class [simp]:
  "capture_packets (store_class cap) frames s = append_all frames s"
  by (simp add: capture_packets_def sniff_no_stop_filter append_all_foldl)

lemma deliver_simps [simp]:
  "session_state (deliver PP frames w) = session_state w"
  "heap (deliver PP frames w) r =
     (if r \<in> set (threads w) then map_option (capture_packets PP frames) (heap w r) else heap w r)"
  "next_ref (deliver PP frames w) = next_ref w"
  "threads (deliver PP frames w) = threads w"
  "clock (deliver PP frames w) = clock w"
  "ticks (deliver PP frames w) = ticks w"
  "page (deliver PP frames w) = page w"
  by (simp_all add: deliver_def)

lemma threads_main: "\<exists>ts. threads (snd (main PP c w)) = threads w @ ts"
proof (cases "initialize PP w")
  case (Inl e)
  then have n: "processor (session_state w) = None"
    by (auto simp: initialize_def split: if_splits)
  then have "init PP [] = Inl e"
    using Inl by (cases "init PP []") (simp_all add: initialize_absent_ok initialize_absent_fail)
  then show ?thesis using n by (simp add: main_absent_fail)
next
  case (Inr w1)
  have m: "main PP c w = main PP c w1" using Inr by (rule main_after_initialize)
  have t: "\<exists>ts. threads w1 = threads w @ ts"
    using Inr by (auto simp: initialize_def start_packet_capture_def time_time_def Let_def
        split: if_splits sum.splits)
  have p: "processor (session_state w1) \<noteq> None"
    using Inr by (auto simp: initialize_def start_packet_capture_def time_time_def Let_def
        split: if_splits sum.splits)
  have i: "initialize PP (w1\<lparr>page := pg\<rparr>) = Inr (w1\<lparr>page := pg\<rparr>)" for pg
    using p by (auto simp: initialize_def)
  have "threads (snd (main PP c w1)) = threads w1"
    by (simp add: main_def emit_def i fetch_current_data_def display_metrics_def time_time_def
        create_visualizations_eq display_recent_packets_def Let_def
        split: option.splits prod.splits)
  then show ?thesis using m t by simp
qed

text \<open>
  C2 (the claim as it stands). With a cancellation condition raised all the time, a loop
  that consults it once per frame ends after the first frame; the capture loop of the
  code goes on and processes the second frame as well.
\<close>

theorem capture_loop_ignores_cancellation:
  "sniff (process_packet (store_class 5)) (Some cancel_raised) [row_epoch, row_datetime] (new_store 5)
     = \<lparr>capacity = 5, records = [row_epoch]\<rparr> \<and>
   capture_packets (store_class 5) [row_epoch, row_datetime] (new_store 5)
     = \<lparr>capacity = 5, records = [row_epoch, row_datetime]\<rparr>"
  by (simp add: cancel_raised_def new_store_def append_store_def Let_def)

text \<open>
  C2 (amended). The capture loop has no cancellation signal: it calls
  \<^verbatim>\<open>process_packet\<close> on every frame the packet source delivers, in the order of
  arrival, whatever happens elsewhere, and no script run of the dashboard stops a capture
  thread, so the loop ends only with the packet source or the process.
\<close>

theorem capture_loop_processes_every_frame:
  "capture_packets PP frames p = foldl (\<lambda>s f. process_packet PP f s) p frames \<and>
   (\<exists>ts. threads (step PP w ev) = threads w @ ts)"
proof -
  have "\<exists>ts. threads (step PP w ev) = threads w @ ts"
    by (cases ev) (simp_all add: threads_main)
  then show ?thesis
    by (simp add: capture_packets_def sniff_no_stop_filter)
qed

section \<open>Properties of a session\<close>

lemma session_ok_cases:
  assumes "session_ok w"
  obtains "processor (session_state w) = None"
  | r p t where "processor (session_state w) = Some (Some r)" and "heap w r = Some p"
      and "start_time (session_state w) = Some t"
  using assms by (auto simp: session_ok_def split: option.splits)

lemma session_ok_started: "session_ok (started p w)"
  by (simp add: session_ok_def)

lemma main_initialised_session_ok:
  assumes "processor (session_state w) = Some (Some r)" and "heap w r = Some p"
    and "start_time (session_state w) = Some t"
  shows "session_ok (snd (main PP c w)) \<and> warnings (page (snd (main PP c w))) = []"
  using assms by (simp add: main_initialised session_ok_def)

lemma main_session_ok:
  assumes "session_ok w"
  shows "session_ok (snd (main PP c w)) \<and> warnings (page (snd (main PP c w))) = []"
proof -
  note initialised = main_initialised_session_ok
  from assms show ?thesis
  proof (cases rule: session_ok_cases)
    case 1
    show ?thesis
    proof (cases "init PP []")
      case (Inl e)
      then show ?thesis using 1 by (simp add: main_absent_fail session_ok_def)
    next
      case (Inr p)
      have "main PP c w = main PP c (started p w)"
        using 1 Inr by (rule main_absent_ok)
      moreover have "session_ok (snd (main PP c (started p w))) \<and>
          warnings (page (snd (main PP c (started p w)))) = []"
        by (rule initialised [where r = "next_ref w" and p = p and t = "clock w (ticks w)"])
          simp_all
      ultimately show ?thesis by simp
    qed
  next
    case (2 r p t)
    then show ?thesis by (rule initialised)
  qed
qed

lemma deliver_session_ok: "session_ok w \<Longrightarrow> session_ok (deliver PP frames w)"
  by (auto simp: session_ok_def split: option.splits)

lemma step_session_ok:
  assumes "session_ok w" and "warnings (page w) = []"
  shows "session_ok (step PP w ev) \<and> warnings (page (step PP w ev)) = []"
  using assms by (cases ev) (simp_all add: main_session_ok deliver_session_ok)

lemma run_session_ok:
  assumes "session_ok w" and "warnings (page w) = []"
  shows "session_ok (run PP events w) \<and> warnings (page (run PP events w)) = []"
  using assms
proof (induction events arbitrary: w)
  case Nil
  then show ?case by (simp add: run_def)
next
  case (Cons ev events)
  have "session_ok (step PP w ev) \<and> warnings (page (step PP w ev)) = []"
    using Cons.prems by (rule step_session_ok)
  then have "session_ok (run PP events (step PP w ev)) \<and>
      warnings (page (run PP events (step PP w ev))) = []"
    using Cons.IH by blast
  then show ?case by (simp add: run_def)
qed

lemma session_ok_new_session: "session_ok (new_session clk)"
  by (simp add: session_ok_def)

text \<open>
  C10. \<^verbatim>\<open>start_packet_capture\<close> never returns \<^verbatim>\<open>None\<close>: when the constructor of the
  processor succeeds it returns the new processor, and otherwise it raises. So the branch
  of \<^verbatim>\<open>main\<close> that warns "Packet processor is not initialized." is never taken: no page
  of a session shows a warning, whatever script runs and captured frames came before.
\<close>

theorem start_packet_capture_never_none:
  "fst (start_packet_capture PP w) \<noteq> Inr None \<and>
   (init PP [] = Inr p \<longrightarrow> fst (start_packet_capture PP w) = Inr (Some (next_ref w))) \<and>
   warnings (page (run PP events (new_session clk))) = []"
proof -
  have "fst (start_packet_capture PP w) \<noteq> Inr None"
    by (simp add: start_packet_capture_def Let_def split: sum.splits)
  moreover have "init PP [] = Inr p \<longrightarrow> fst (start_packet_capture PP w) = Inr (Some (next_ref w))"
    by (simp add: start_packet_capture_def Let_def)
  moreover have "warnings (page (run PP events (new_session clk))) = []"
    using run_session_ok [OF session_ok_new_session, of clk PP events] by simp
  ultimately show ?thesis by simp
qed

theorem start_packet_capture_never_none_witness:
  "init (store_class 2) [] = Inr (new_store 2 :: packet_row record_store) \<and>
   fst (start_packet_capture (store_class 2) (new_session steady_clock :: (packet_row record_store, unit) world))
     = Inr (Some 0) \<and>
   warnings (page (run (store_class 2) [Script_run False, Frames [row_epoch], Script_run True]
                    (new_session steady_clock))) = []"
  using start_packet_capture_never_none
    [of "store_class 2" "new_session steady_clock :: (packet_row record_store, unit) world"
       "new_store 2" "[Script_run False, Frames [row_epoch], Script_run True]" steady_clock]
  by simp

section \<open>Order of the rows\<close>

lemma map_fst_enumerate_drop:
  "map fst (drop k (enumerate 0 rs)) = [k..<length rs]"
  by (simp add: drop_map [symmetric] drop_upt)

text \<open>
  C7. Records of a snapshot come in arrival order: with every record numbered by its
  arrival, the numbers of a snapshot of the store are non-decreasing. The table of recent
  packets keeps the order: when the table obtained from the processor has at least one
  row, the page shows one table, made of the last min(10, length) rows in their order,
  each with its five columns and the timestamp as the timeline chart converted it.
\<close>

theorem recent_packets_keep_order:
  assumes "initialize PP w = Inr w1"
    and "processor (session_state w1) = Some (Some r)"
    and "heap w1 r = Some p"
    and "start_time (session_state w1) = Some t"
    and "get_dataframe PP p = df"
    and "df \<noteq> []"
  shows "sorted (map fst (snapshot (append_all (enumerate 0 rs) (new_store cap)))) \<and>
     tables (page (snd (main PP c w))) =
       [map (\<lambda>r. packet_row.truncate (r\<lparr>timestamp := to_datetime (timestamp r)\<rparr>))
            (drop (length df - 10) df)] \<and>
     length (drop (length df - 10) df) = min 10 (length df)"
proof -
  have "records (append_all (enumerate 0 rs) (new_store cap))
      = drop (length rs - cap) (enumerate 0 rs)"
    using records_append_all [of "new_store cap" "enumerate 0 rs"] by (simp add: new_store_def)
  then have a: "sorted (map fst (snapshot (append_all (enumerate 0 rs) (new_store cap))))"
    by (simp add: snapshot_def map_fst_enumerate_drop)
  have "main PP c w = main PP c w1"
    using assms(1) by (rule main_after_initialize)
  also have "\<dots> = (Rerun, w1\<lparr>page := dashboard_page (get_dataframe PP p) (clock w1 (ticks w1) - t),
                               ticks := Suc (ticks w1)\<rparr>)"
    using assms(2-4) by (rule main_initialised)
  finally have "tables (page (snd (main PP c w))) = [select_columns (tail 10 (to_datetime_column df))]"
    using assms(5,6) by simp
  then have b: "tables (page (snd (main PP c w))) =
       [map (\<lambda>r. packet_row.truncate (r\<lparr>timestamp := to_datetime (timestamp r)\<rparr>))
            (drop (length df - 10) df)]"
    by (simp add: select_columns_def tail_def to_datetime_column_def drop_map)
  show ?thesis using a b by simp
qed

theorem recent_packets_keep_order_witness:
  "tables (page (snd (main (store_class 5) False
      (deliver (store_class 5) [row_epoch, row_datetime]
         (started (new_store 5) (new_session steady_clock))))))
     = [[row_epoch\<lparr>timestamp := Datetime 2500000000\<rparr>, row_datetime]] \<and>
   sorted (map fst (snapshot (append_all (enumerate 0 [row_epoch, row_datetime, row_epoch]) (new_store 2))))"
proof -
  let ?w = "deliver (store_class 5) [row_epoch, row_datetime]
         (started (new_store 5) (new_session steady_clock)) :: (packet_row record_store, unit) world"
  let ?p = "append_all [row_epoch, row_datetime] (new_store 5)"
  have 1: "initialize (store_class 5) ?w = Inr ?w"
    by (rule initialize_present [where v = "Some 0"]) simp
  have 2: "processor (session_state ?w) = Some (Some 0)" by simp
  have 3: "heap ?w 0 = Some ?p" by simp
  have 4: "start_time (session_state ?w) = Some 0" by (simp add: steady_clock_def)
  have 5: "get_dataframe (store_class 5) ?p = [row_epoch, row_datetime]"
    by (simp add: snapshot_def new_store_def append_store_def Let_def)
  have 6: "[row_epoch, row_datetime] \<noteq> []" by simp
  show ?thesis
    using recent_packets_keep_order [OF 1 2 3 4 5 6, of "[row_epoch, row_datetime, row_epoch]" 2 False]
    by (simp add: row_epoch_def row_datetime_def packet_row.truncate_def)
qed

section \<open>The constructor call\<close>

lemma start_packet_capture_cong_class:
  assumes "init PP [] = init PP' []"
  shows "start_packet_capture PP w = start_packet_capture PP' w"
  by (simp only: start_packet_capture_def assms)

lemma initialize_cong_class:
  assumes "init PP [] = init PP' []"
  shows "initialize PP w = initialize PP' w"
  by (simp only: initialize_def start_packet_capture_cong_class [OF assms])

lemma fetch_current_data_cong_class:
  assumes "get_dataframe PP = get_dataframe PP'"
  shows "fetch_current_data PP w = fetch_current_data PP' w"
  by (simp only: fetch_current_data_def assms)

lemma main_cong_class:
  assumes "init PP [] = init PP' []" and "get_dataframe PP = get_dataframe PP'"
  shows "main PP c w = main PP' c w"
  by (simp only: main_def initialize_cong_class [OF assms(1)]
      fetch_current_data_cong_class [OF assms(2)])

lemma deliver_cong_class:
  assumes "process_packet PP = process_packet PP'"
  shows "deliver PP frames w = deliver PP' frames w"
proof -
  have "capture_packets PP frames = capture_packets PP' frames"
    by (intro ext) (simp only: capture_packets_def assms)
  then show ?thesis by (simp only: deliver_def)
qed

lemma step_cong_class:
  assumes "init PP [] = init PP' []" and "process_packet PP = process_packet PP'"
    and "get_dataframe PP = get_dataframe PP'"
  shows "step PP w ev = step PP' w ev"
proof (cases ev)
  case (Script_run c)
  then show ?thesis
    by (simp only: step.simps main_cong_class [OF assms(1,3)])
next
  case (Frames frames)
  then show ?thesis
    by (simp only: step.simps deliver_cong_class [OF assms(2)])
qed

text \<open>
  C3 (the claim as it stands). With a processor class whose constructor takes the
  capacity as its argument, and builds a store of capacity five when given five,
  \<^verbatim>\<open>start_packet_capture\<close> raises TypeError: it calls the constructor without arguments.
\<close>

theorem start_packet_capture_passes_no_capacity:
  "init sized_store_class [5] = Inr (new_store 5 :: packet_row record_store) \<and>
   fst (start_packet_capture sized_store_class
          (new_session steady_clock :: (packet_row record_store, unit) world)) = Inl TypeError"
  by (simp add: sized_store_class_def start_packet_capture_def)

text \<open>
  C3 (amended). The store capacity is not a parameter of the start-up:
  \<^verbatim>\<open>start_packet_capture\<close> takes no argument and constructs the processor by a call
  without arguments, so the capacity is what the class fixes by itself. Two classes that
  agree on the call without arguments, on \<^verbatim>\<open>process_packet\<close> and on \<^verbatim>\<open>get_dataframe\<close>
  give the same start-up and the same session, whatever their constructors do with a
  capacity argument.
\<close>

theorem capacity_is_not_a_startup_parameter:
  assumes "init PP [] = init PP' []" and "process_packet PP = process_packet PP'"
    and "get_dataframe PP = get_dataframe PP'"
  shows "start_packet_capture PP w = start_packet_capture PP' w \<and>
     run PP events w = run PP' events w"
proof -
  have "step PP = step PP'"
    using assms by (intro ext) (rule step_cong_class)
  then show ?thesis
    by (simp only: run_def start_packet_capture_cong_class [OF assms(1)])
qed

theorem capacity_is_not_a_startup_parameter_witness:
  "init (store_class 2) [7] \<noteq> init optional_store_class [7] \<and>
   start_packet_capture (store_class 2) (new_session steady_clock :: (packet_row record_store, unit) world)
     = start_packet_capture optional_store_class (new_session steady_clock) \<and>
   run (store_class 2) [Script_run False, Frames [row_epoch]] (new_session steady_clock :: (packet_row record_store, unit) world)
     = run optional_store_class [Script_run False, Frames [row_epoch]] (new_session steady_clock)"
proof -
  have 1: "init (store_class 2) [] = init optional_store_class []"
    by (simp add: store_class_def optional_store_class_def)
  have 2: "process_packet (store_class 2) = process_packet optional_store_class"
    by (simp add: store_class_def optional_store_class_def)
  have 3: "get_dataframe (store_class 2) = get_dataframe optional_store_class"
    by (simp add: store_class_def optional_store_class_def)
  have "init (store_class 2) [7] \<noteq> init optional_store_class [7]"
    by (simp add: store_class_def optional_store_class_def)
  then show ?thesis
    using capacity_is_not_a_startup_parameter [OF 1 2 3,
        of "new_session steady_clock" "[Script_run False, Frames [row_epoch]]"]
    by (simp only: simp_thms)
qed

section \<open>One processor and one start time per session\<close>

lemma step_initialised:
  assumes "processor (session_state w) = Some (Some r)" and "heap w r = Some p"
    and "start_time (session_state w) = Some t"
  shows "session_state (step PP w ev) = session_state w \<and>
     next_ref (step PP w ev) = next_ref w \<and>
     threads (step PP w ev) = threads w \<and>
     clock (step PP w ev) = clock w \<and>
     ticks w \<le> ticks (step PP w ev) \<and>
     (\<exists>p'. heap (step PP w ev) r = Some p')"
proof (cases ev)
  case (Script_run c)
  then show ?thesis using assms by (simp add: main_initialised)
next
  case (Frames frames)
  then show ?thesis using assms by simp
qed

lemma run_initialised:
  assumes "processor (session_state w) = Some (Some r)" and "heap w r = Some p"
    and "start_time (session_state w) = Some t"
  shows "session_state (run PP events w) = session_state w \<and>
     next_ref (run PP events w) = next_ref w \<and>
     threads (run PP events w) = threads w \<and>
     clock (run PP events w) = clock w \<and>
     ticks w \<le> ticks (run PP events w) \<and>
     (\<exists>p'. heap (run PP events w) r = Some p')"
  using assms
proof (induction events arbitrary: w p)
  case Nil
  then show ?case by (simp add: run_def)
next
  case (Cons ev events)
  let ?w = "step PP w ev"
  have s: "session_state ?w = session_state w \<and> next_ref ?w = next_ref w \<and>
      threads ?w = threads w \<and> clock ?w = clock w \<and> ticks w \<le> ticks ?w \<and>
      (\<exists>p'. heap ?w r = Some p')"
    using Cons.prems by (rule step_initialised)
  then obtain p' where p': "heap ?w r = Some p'" by blast
  have "session_state (run PP events ?w) = session_state ?w \<and>
      next_ref (run PP events ?w) = next_ref ?w \<and>
      threads (run PP events ?w) = threads ?w \<and>
      clock (run PP events ?w) = clock ?w \<and>
      ticks ?w \<le> ticks (run PP events ?w) \<and>
      (\<exists>p'. heap (run PP events ?w) r = Some p')"
    using s Cons.prems p' by (intro Cons.IH [of ?w p']) simp_all
  moreover have "run PP (ev # events) w = run PP events ?w"
    by (simp add: run_def)
  ultimately show ?case using s by simp
qed

lemma session_inv_initialised:
  assumes "session_inv w" and "processor (session_state w) = Some v"
  obtains p t where "v = Some 0" and "next_ref w = 1" and "threads w = [0]"
    and "heap w 0 = Some p" and "start_time (session_state w) = Some t"
  using assms by (auto simp: session_inv_def)

lemma session_inv_step:
  assumes "session_inv w"
  shows "session_inv (step PP w ev) \<and> clock (step PP w ev) = clock w"
proof (cases "processor (session_state w)")
  case None
  then have n: "next_ref w = 0" "threads w = []"
    using assms by (simp_all add: session_inv_def)
  show ?thesis
  proof (cases ev)
    case (Frames frames)
    then show ?thesis using None n by (simp add: session_inv_def)
  next
    case (Script_run c)
    show ?thesis
    proof (cases "init PP []")
      case (Inl e)
      then show ?thesis
        using None n Script_run by (simp add: main_absent_fail session_inv_def)
    next
      case (Inr p)
      have "main PP c w = main PP c (started p w)"
        using None Inr by (rule main_absent_ok)
      also have "\<dots> = (Rerun, (started p w)\<lparr>page := dashboard_page (get_dataframe PP p)
            (clock (started p w) (ticks (started p w)) - clock w (ticks w)),
          ticks := Suc (ticks (started p w))\<rparr>)"
        by (rule main_initialised [where r = "next_ref w"]) simp_all
      finally show ?thesis
        using n Script_run by (simp add: session_inv_def)
    qed
  qed
next
  case (Some v)
  with assms obtain p t where i: "v = Some 0" "next_ref w = 1" "threads w = [0]"
      "heap w 0 = Some p" "start_time (session_state w) = Some t"
    by (rule session_inv_initialised)
  have "session_state (step PP w ev) = session_state w \<and>
     next_ref (step PP w ev) = next_ref w \<and>
     threads (step PP w ev) = threads w \<and>
     clock (step PP w ev) = clock w \<and>
     ticks w \<le> ticks (step PP w ev) \<and>
     (\<exists>p'. heap (step PP w ev) 0 = Some p')"
    using Some i by (intro step_initialised [where p = p and t = t]) simp_all
  then show ?thesis
    using Some i by (auto simp: session_inv_def)
qed

lemma session_inv_run:
  assumes "session_inv w"
  shows "session_inv (run PP events w) \<and> clock (run PP events w) = clock w"
  using assms
proof (induction events arbitrary: w)
  case Nil
  then show ?case by (simp add: run_def)
next
  case (Cons ev events)
  have "session_inv (step PP w ev) \<and> clock (step PP w ev) = clock w"
    using Cons.prems by (rule session_inv_step)
  moreover from this have "session_inv (run PP events (step PP w ev)) \<and>
      clock (run PP events (step PP w ev)) = clock (step PP w ev)"
    using Cons.IH by blast
  ultimately show ?case by (simp add: run_def)
qed

lemma session_inv_new_session: "session_inv (new_session clk)"
  by (simp add: session_inv_def)

lemma main_new_session:
  assumes "init PP [] = Inr p"
  shows "main PP c (new_session clk) =
     (Rerun, (started p (new_session clk))\<lparr>page := dashboard_page (get_dataframe PP p) (clk 1 - clk 0),
                                            ticks := 2\<rparr>)"
proof -
  have "main PP c (new_session clk) = main PP c (started p (new_session clk))"
    using assms by (intro main_absent_ok) simp_all
  moreover have "main PP c (started p (new_session clk)) =
      (Rerun, (started p (new_session clk))\<lparr>page := dashboard_page (get_dataframe PP p)
        (clock (started p (new_session clk)) (ticks (started p (new_session clk))) - clk 0),
      ticks := Suc (ticks (started p (new_session clk)))\<rparr>)"
    using main_initialised [where w = "started p (new_session clk)" and r = 0 and p = p
        and t = "clk 0" and PP = PP and c = c]
    by simp
  ultimately show ?thesis by (simp add: numeral_2_eq_2)
qed

text \<open>
  C5 (the claim as it stands). When the wall clock is set back between two script runs,
  the capture duration shown goes down: one second in the first run, minus fifty in the
  second.
\<close>

theorem duration_decreases_when_clock_set_back:
  "durations (page (run (store_class 2) [Script_run False]
      (new_session set_back_clock :: (packet_row record_store, unit) world))) = [1] \<and>
   durations (page (run (store_class 2) [Script_run False, Script_run False]
      (new_session set_back_clock :: (packet_row record_store, unit) world))) = [- 50]"
proof -
  let ?a = "new_session set_back_clock :: (packet_row record_store, unit) world"
  let ?b = "(started (new_store 2) ?a)\<lparr>page := dashboard_page (get_dataframe (store_class 2) (new_store 2))
      (set_back_clock 1 - set_back_clock 0), ticks := 2\<rparr>"
  have 1: "main (store_class 2) False ?a = (Rerun, ?b)"
    by (rule main_new_session) simp
  have 2: "main (store_class 2) False ?b =
      (Rerun, ?b\<lparr>page := dashboard_page (get_dataframe (store_class 2) (new_store 2))
          (set_back_clock 2 - set_back_clock 0), ticks := 3\<rparr>)"
    using main_initialised [where w = ?b and r = 0 and p = "new_store 2"
        and t = "set_back_clock 0" and PP = "store_class 2" and c = False]
    by simp
  have "run (store_class 2) [Script_run False] ?a = ?b"
    by (simp only: run_def foldl.simps step.simps 1 snd_conv)
  then have a: "durations (page (run (store_class 2) [Script_run False] ?a)) = [1]"
    by (simp add: set_back_clock_def)
  have "run (store_class 2) [Script_run False, Script_run False] ?a =
      ?b\<lparr>page := dashboard_page (get_dataframe (store_class 2) (new_store 2))
          (set_back_clock 2 - set_back_clock 0), ticks := 3\<rparr>"
    by (simp only: run_def foldl.simps step.simps 1 snd_conv 2)
  then have b: "durations (page (run (store_class 2) [Script_run False, Script_run False] ?a)) = [- 50]"
    by (simp add: set_back_clock_def)
  show ?thesis using a b by simp
qed

text \<open>
  C5 (amended). The capture engine and its start time are created once per session: in
  any session, once the session state holds a processor it is the one at reference 0,
  made with its capture thread by the first successful start-up, and every later script
  run and every captured frame leaves the session state, the number of processors and the
  capture threads as they are. Each script run shows as capture duration the reading of
  the wall clock at that moment minus the recorded start time. Of two script runs the
  later one shows a duration that is not smaller, as long as the wall clock is not set
  back.
\<close>

theorem processor_and_start_time_created_once:
  assumes "w = run PP events (new_session clk)"
    and "processor (session_state w) = Some v"
    and "w' = run PP events' (snd (main PP c w))"
  shows "v = Some 0 \<and> next_ref w = 1 \<and> threads w = [0] \<and>
     session_state w' = session_state w \<and> next_ref w' = 1 \<and> threads w' = [0] \<and>
     (\<exists>t. start_time (session_state w) = Some t \<and>
          durations (page (snd (main PP c w))) = [clk (ticks w) - t] \<and>
          durations (page (snd (main PP c' w'))) = [clk (ticks w') - t] \<and>
          ticks w < ticks w' \<and>
          ((\<forall>i j. i \<le> j \<longrightarrow> clk i \<le> clk j) \<longrightarrow> clk (ticks w) - t \<le> clk (ticks w') - t))"
proof -
  have inv: "session_inv w" and clk: "clock w = clk"
    using session_inv_run [OF session_inv_new_session, of PP events clk] assms(1) by simp_all
  from inv assms(2) obtain p t where i: "v = Some 0" "next_ref w = 1" "threads w = [0]"
      "heap w 0 = Some p" "start_time (session_state w) = Some t"
    by (rule session_inv_initialised)
  have pr: "processor (session_state w) = Some (Some 0)"
    using assms(2) i(1) by simp
  let ?w2 = "w\<lparr>page := dashboard_page (get_dataframe PP p) (clock w (ticks w) - t),
                ticks := Suc (ticks w)\<rparr>"
  have m: "main PP c w = (Rerun, ?w2)"
    using pr i(4,5) by (rule main_initialised)
  have r: "session_state w' = session_state ?w2 \<and> next_ref w' = next_ref ?w2 \<and>
      threads w' = threads ?w2 \<and> clock w' = clock ?w2 \<and> ticks ?w2 \<le> ticks w' \<and>
      (\<exists>p'. heap w' 0 = Some p')"
    unfolding assms(3) m snd_conv
    using pr i(4,5) by (intro run_initialised [where p = p and t = t]) simp_all
  then obtain p' where p': "heap w' 0 = Some p'" by blast
  have m': "main PP c' w' =
      (Rerun, w'\<lparr>page := dashboard_page (get_dataframe PP p') (clock w' (ticks w') - t),
                  ticks := Suc (ticks w')\<rparr>)"
    using r pr i(5) p' by (intro main_initialised [where r = 0]) simp_all
  have lt: "ticks w < ticks w'" using r by simp
  have mono: "(\<forall>i j. i \<le> j \<longrightarrow> clk i \<le> clk j) \<longrightarrow> clk (ticks w) - t \<le> clk (ticks w') - t"
    using lt by (simp add: less_imp_le)
  have d: "durations (page (snd (main PP c w))) = [clk (ticks w) - t]"
    by (simp add: m clk)
  have d': "durations (page (snd (main PP c' w'))) = [clk (ticks w') - t]"
    using r by (simp add: m' clk)
  show ?thesis
    using i(1,2,3,5) r d d' lt mono by simp
qed

theorem processor_and_start_time_created_once_witness:
  "processor (session_state (run (store_class 2) [Script_run False]
      (new_session steady_clock :: (packet_row record_store, unit) world))) = Some (Some 0) \<and>
   session_state (run (store_class 2) [Frames [row_epoch]]
        (snd (main (store_class 2) False (run (store_class 2) [Script_run False]
          (new_session steady_clock :: (packet_row record_store, unit) world)))))
     = \<lparr>processor = Some (Some 0), start_time = Some 0\<rparr> \<and>
   threads (run (store_class 2) [Frames [row_epoch]]
        (snd (main (store_class 2) False (run (store_class 2) [Script_run False]
          (new_session steady_clock :: (packet_row record_store, unit) world))))) = [0] \<and>
   durations (page (snd (main (store_class 2) False (run (store_class 2) [Script_run False]
          (new_session steady_clock :: (packet_row record_store, unit) world))))) = [2] \<and>
   durations (page (snd (main (store_class 2) True (run (store_class 2) [Frames [row_epoch]]
        (snd (main (store_class 2) False (run (store_class 2) [Script_run False]
          (new_session steady_clock :: (packet_row record_store, unit) world)))))))) = [3]"
proof -
  let ?a = "new_session steady_clock :: (packet_row record_store, unit) world"
  let ?b = "run (store_class 2) [Script_run False] ?a"
  let ?c = "run (store_class 2) [Frames [row_epoch]] (snd (main (store_class 2) False ?b))"
  have m: "main (store_class 2) False ?a =
      (Rerun, (started (new_store 2) ?a)\<lparr>page := dashboard_page (get_dataframe (store_class 2) (new_store 2))
      (steady_clock 1 - steady_clock 0), ticks := 2\<rparr>)"
    by (rule main_new_session) simp
  have w: "?b = (started (new_store 2) ?a)\<lparr>page := dashboard_page (get_dataframe (store_class 2) (new_store 2))
      (steady_clock 1 - steady_clock 0), ticks := 2\<rparr>"
    by (simp only: run_def foldl.simps step.simps m snd_conv)
  have 2: "processor (session_state ?b) = Some (Some 0)"
    by (simp add: w)
  have st: "session_state ?b = \<lparr>processor = Some (Some 0), start_time = Some 0\<rparr>"
    by (simp add: w steady_clock_def)
  have tw: "ticks ?b = 2" by (simp add: w)
  have mono: "\<forall>i j. i \<le> j \<longrightarrow> steady_clock i \<le> steady_clock j"
    by (simp add: steady_clock_def)
  note c = processor_and_start_time_created_once
    [where events' = "[Frames [row_epoch]]" and c = False and c' = True, OF refl 2 refl]
  have "ticks (snd (main (store_class 2) False ?b)) = 3"
    using main_initialised [where w = ?b and r = 0 and p = "new_store 2" and t = 0
        and PP = "store_class 2" and c = False] 2 st tw
    by (simp add: w)
  then have tw': "ticks ?c = 3"
    by (simp add: run_def)
  show ?thesis
    using c 2 by (simp add: st tw tw' steady_clock_def)
qed

section \<open>The total count\<close>

text \<open>
  C4. In every script run the "Total Packets" metric is the number of rows of the table
  obtained from the processor in that same run: when the session state holds the
  processor object \<open>p\<close>, the page of the run shows exactly one such metric, and its value is
  the length of \<open>get_dataframe\<close> of \<open>p\<close>, the table that the run also writes to the page.
\<close>

theorem total_packets_is_len_df:
  assumes "initialize PP w = Inr w1"
    and "processor (session_state w1) = Some (Some r)"
    and "heap w1 r = Some p"
  shows "total_counts (page (snd (main PP c w))) = [Count (length (get_dataframe PP p))] \<and>
     (\<forall>t. start_time (session_state w1) = Some t \<longrightarrow>
        Write ''Current DataFrame:'' (get_dataframe PP p) \<in> set (page (snd (main PP c w))))"
proof -
  have m: "main PP c w = main PP c w1"
    using assms(1) by (rule main_after_initialize)
  have i: "initialize PP (w1\<lparr>page := pg\<rparr>) = Inr (w1\<lparr>page := pg\<rparr>)" for pg
    by (rule initialize_present [where v = "Some r"]) (simp add: assms(2))
  have "total_counts (page (snd (main PP c w1))) = [Count (length (get_dataframe PP p))]"
    using assms(2,3)
    by (simp add: main_def emit_def i fetch_current_data_def display_metrics_def time_time_def
        create_visualizations_eq display_recent_packets_def Let_def charts_def
        split: option.splits prod.splits)
  moreover have "Write ''Current DataFrame:'' (get_dataframe PP p) \<in> set (page (snd (main PP c w1)))"
    if "start_time (session_state w1) = Some t" for t
    using assms(2,3) that by (simp add: main_initialised dashboard_page_def)
  ultimately show ?thesis using m by simp
qed

theorem total_packets_is_len_df_witness:
  "total_counts (page (snd (main (store_class 5) False
      (deliver (store_class 5) [row_epoch, row_datetime]
         (started (new_store 5) (new_session steady_clock)))))) = [Count 2] \<and>
   Write ''Current DataFrame:'' [row_epoch, row_datetime] \<in> set (page (snd (main (store_class 5) False
      (deliver (store_class 5) [row_epoch, row_datetime]
         (started (new_store 5) (new_session steady_clock))))))"
proof -
  let ?a = "deliver (store_class 5) [row_epoch, row_datetime]
         (started (new_store 5) (new_session steady_clock)) :: (packet_row record_store, unit) world"
  let ?p = "append_all [row_epoch, row_datetime] (new_store 5)"
  have 1: "initialize (store_class 5) ?a = Inr ?a"
    by (rule initialize_present [where v = "Some 0"]) simp
  have 2: "processor (session_state ?a) = Some (Some 0)" by simp
  have 3: "heap ?a 0 = Some ?p" by simp
  have 4: "start_time (session_state ?a) = Some 0" by (simp add: steady_clock_def)
  show ?thesis
    using total_packets_is_len_df [OF 1 2 3, of False] 4
    by (simp add: snapshot_def new_store_def append_store_def Let_def)
qed

end
